theory Spec2Isabelle
  imports Main "HOL-Library.Word"
begin

unbundle bit_operations_syntax

section \<open>Memory and the data model of upb\_struct.h\<close>

text \<open>
  Every function of the header works on raw memory through a \<^verbatim>\<open>uint8_t *\<close>: it does no
  bounds, existence or type check. The model is the same: memory is a total map from
  addresses to bytes, a pointer is an address, and \<^verbatim>\<open>s[k]\<close> is the byte at address
  \<open>s + k\<close>, whatever the allocation around it. Pointer arithmetic that wraps around is
  undefined in C, so addresses are unbounded integers. The descriptor structures
  (\<^verbatim>\<open>upb_struct_field\<close>, \<^verbatim>\<open>upb_struct_definition\<close>, \<^verbatim>\<open>upb_array\<close>) are passed as values:
  they are read only, and live outside the bytes the functions write.
\<close>

type_synonym addr = int
type_synonym uint8_t = "8 word"
type_synonym heap = "addr \<Rightarrow> uint8_t"

text \<open>
  \<^verbatim>\<open>struct upb_struct_field\<close>. \<^verbatim>\<open>ptrdiff_t\<close> is a signed integer of the platform's pointer
  width; no arithmetic is done on it other than adding it to a pointer.
\<close>

record upb_struct_field =
  byte_offset :: int
  isset_byte_offset :: int
  isset_byte_mask :: uint8_t

text \<open>
  \<^verbatim>\<open>struct upb_struct_definition\<close>. The flexible array member \<^verbatim>\<open>fields[]\<close> is a list;
  the C fields \<^verbatim>\<open>size\<close> and \<^verbatim>\<open>fields\<close> are named \<open>struct_size\<close> and \<open>fields_arr\<close> here.
\<close>

record upb_struct_definition =
  struct_size :: nat
  num_fields :: int
  set_flags_bytes :: int
  num_required_fields :: int
  fields_arr :: "upb_struct_field list"

section \<open>The "set" flags\<close>

text \<open>\<^verbatim>\<open>s[f->isset_byte_offset] |= f->isset_byte_mask;\<close>\<close>

definition upb_struct_set :: "heap \<Rightarrow> addr \<Rightarrow> upb_struct_field \<Rightarrow> heap" where
  "upb_struct_set h s f =
     h(s + isset_byte_offset f := h (s + isset_byte_offset f) OR isset_byte_mask f)"

text \<open>
  \<^verbatim>\<open>s[f->isset_byte_offset] &= ~f->isset_byte_mask;\<close> The operands are promoted to
  \<^verbatim>\<open>int\<close> and the result is cut back to a byte, which is the bytewise operation.
\<close>

definition upb_struct_unset :: "heap \<Rightarrow> addr \<Rightarrow> upb_struct_field \<Rightarrow> heap" where
  "upb_struct_unset h s f =
     h(s + isset_byte_offset f := h (s + isset_byte_offset f) AND NOT (isset_byte_mask f))"

text \<open>
  \<^verbatim>\<open>return s[f->isset_byte_offset] & f->isset_byte_mask;\<close> The conversion to
  \<^verbatim>\<open>bool\<close> is the test against zero.
\<close>

definition upb_struct_is_set :: "heap \<Rightarrow> addr \<Rightarrow> upb_struct_field \<Rightarrow> bool" where
  "upb_struct_is_set h s f \<longleftrightarrow> h (s + isset_byte_offset f) AND isset_byte_mask f \<noteq> 0"

section \<open>Required fields\<close>

text \<open>
  The loop of \<^verbatim>\<open>upb_struct_all_required_fields_set\<close> on its two locals \<^verbatim>\<open>num_fields\<close>
  and \<^verbatim>\<open>i\<close>:
  \<^verbatim>\<open>
  while(num_fields > 8) {
    if(s[i++] != 0xFF) return false;
    num_fields -= 8;
  }
  if(s[i] != (1 << num_fields) - 1) return false;
  return true;
  \<close>
  Both comparisons are made on \<^verbatim>\<open>int\<close>, the byte being promoted. A shift by a negative
  count is undefined in C: the result is \<open>None\<close> there. At the shift \<^verbatim>\<open>num_fields\<close> is at
  most 8, and neither local can overflow. The local \<^verbatim>\<open>num_fields\<close> is written
  \<open>num_fields'\<close>, the plain name being the field of the definition.
\<close>

function all_required_loop :: "heap \<Rightarrow> addr \<Rightarrow> int \<Rightarrow> int \<Rightarrow> bool option" where
  "all_required_loop h s num_fields' i =
     (if num_fields' > 8 then
        (if uint (h (s + i)) \<noteq> 0xFF then Some False
         else all_required_loop h s (num_fields' - 8) (i + 1))
      else if num_fields' < 0 then None
      else if uint (h (s + i)) \<noteq> push_bit (nat num_fields') 1 - 1 then Some False
      else Some True)"
  by pat_completeness auto
termination
  by (relation "measure (\<lambda>(h, s, num_fields', i). nat num_fields')") auto

definition upb_struct_all_required_fields_set ::
    "heap \<Rightarrow> addr \<Rightarrow> upb_struct_definition \<Rightarrow> bool option" where
  "upb_struct_all_required_fields_set h s d = all_required_loop h s (num_required_fields d) 0"

text \<open>
  \<^verbatim>\<open>memset(s, c, n)\<close> of the C library: the \<open>n\<close> bytes from \<open>s\<close> on become \<open>c\<close>.
\<close>

definition memset :: "heap \<Rightarrow> addr \<Rightarrow> uint8_t \<Rightarrow> nat \<Rightarrow> heap" where
  "memset h s c n = (\<lambda>a. if s \<le> a \<and> a < s + int n then c else h a)"

text \<open>
  The conversion of an \<^verbatim>\<open>int\<close> to \<^verbatim>\<open>size_t\<close>: a value that is not negative is kept, a
  negative one wraps around (\<^verbatim>\<open>size_t\<close> taken 64 bits wide).
\<close>

definition size_t_of_int :: "int \<Rightarrow> nat" where
  "size_t_of_int n = (if 0 \<le> n then nat n else nat (2 ^ 64 + n))"

text \<open>\<^verbatim>\<open>memset(s, 0, d->set_flags_bytes);\<close>\<close>

definition upb_struct_clear :: "heap \<Rightarrow> addr \<Rightarrow> upb_struct_definition \<Rightarrow> heap" where
  "upb_struct_clear h s d = memset h s 0 (size_t_of_int (set_flags_bytes d))"

section \<open>Typed accessors\<close>

text \<open>
  \<^verbatim>\<open>*(ctype*)p\<close> reads and \<^verbatim>\<open>*(ctype*)p = val\<close> writes the \<^verbatim>\<open>sizeof(ctype)\<close> bytes of
  the object representation of a value at \<open>p\<close>. A C type is given by its size and by
  the two directions of its object representation.
\<close>

record 'a ctype =
  sizeof :: nat
  to_bytes :: "'a \<Rightarrow> uint8_t list"
  of_bytes :: "uint8_t list \<Rightarrow> 'a"

fun store_bytes :: "heap \<Rightarrow> addr \<Rightarrow> uint8_t list \<Rightarrow> heap" where
  "store_bytes h p [] = h"
| "store_bytes h p (b # bs) = store_bytes (h(p := b)) (p + 1) bs"

fun load_bytes :: "heap \<Rightarrow> addr \<Rightarrow> nat \<Rightarrow> uint8_t list" where
  "load_bytes h p 0 = []"
| "load_bytes h p (Suc n) = h p # load_bytes h (p + 1) n"

definition deref :: "'a ctype \<Rightarrow> heap \<Rightarrow> addr \<Rightarrow> 'a" where
  "deref T h p = of_bytes T (load_bytes h p (sizeof T))"

definition assign :: "'a ctype \<Rightarrow> heap \<Rightarrow> addr \<Rightarrow> 'a \<Rightarrow> heap" where
  "assign T h p val = store_bytes h p (to_bytes T val)"

text \<open>
  The format depends on the endianness of the host (see the header's comment), so the
  byte order is a parameter. \<open>le_bytes n w\<close> are the \<open>n\<close> low-order bytes of \<open>w\<close>, least
  significant first; \<open>le_word\<close> puts them together again.
\<close>

datatype endianness = LittleEndian | BigEndian

fun le_bytes :: "nat \<Rightarrow> 'a::len word \<Rightarrow> uint8_t list" where
  "le_bytes 0 w = []"
| "le_bytes (Suc n) w = ucast w # le_bytes n (drop_bit 8 w)"

fun le_word :: "uint8_t list \<Rightarrow> 'a::len word" where
  "le_word [] = 0"
| "le_word (b # bs) = ucast b OR push_bit 8 (le_word bs)"

definition word_ctype :: "endianness \<Rightarrow> nat \<Rightarrow> 'a::len word ctype" where
  "word_ctype e n =
     \<lparr>sizeof = n,
      to_bytes = (\<lambda>w. case e of LittleEndian \<Rightarrow> le_bytes n w | BigEndian \<Rightarrow> rev (le_bytes n w)),
      of_bytes = (\<lambda>bs. case e of LittleEndian \<Rightarrow> le_word bs | BigEndian \<Rightarrow> le_word (rev bs))\<rparr>"

text \<open>
  The seven primitive types of the header. The integer types are words of their width
  (\<open>sint\<close> reads the signed ones). A \<^verbatim>\<open>float\<close> or \<^verbatim>\<open>double\<close> is the 32 or 64 bits of its
  object representation: the accessors copy it and compute nothing with it. A \<^verbatim>\<open>bool\<close>
  is one byte, 1 for true and 0 for false.
\<close>

type_synonym int32_t = "32 word"
type_synonym int64_t = "64 word"
type_synonym uint32_t = "32 word"
type_synonym uint64_t = "64 word"
type_synonym float = "32 word"
type_synonym double = "64 word"

definition c_double :: "endianness \<Rightarrow> double ctype" where
  "c_double e = word_ctype e 8"

definition c_float :: "endianness \<Rightarrow> float ctype" where
  "c_float e = word_ctype e 4"

definition c_int32 :: "endianness \<Rightarrow> int32_t ctype" where
  "c_int32 e = word_ctype e 4"

definition c_int64 :: "endianness \<Rightarrow> int64_t ctype" where
  "c_int64 e = word_ctype e 8"

definition c_uint32 :: "endianness \<Rightarrow> uint32_t ctype" where
  "c_uint32 e = word_ctype e 4"

definition c_uint64 :: "endianness \<Rightarrow> uint64_t ctype" where
  "c_uint64 e = word_ctype e 8"

definition c_bool :: "bool ctype" where
  "c_bool =
     \<lparr>sizeof = 1,
      to_bytes = (\<lambda>b. [if b then 1 else 0]),
      of_bytes = (\<lambda>bs. case bs of [] \<Rightarrow> False | b # _ \<Rightarrow> b \<noteq> 0)\<rparr>"

text \<open>
  \<^verbatim>\<open>UPB_DEFINE_ACCESSORS(ctype, name, INLINE)\<close>, with the C type as the parameter \<open>T\<close>:
  \<^verbatim>\<open>
  ctype *upb_struct_get_name_ptr(s, f) { return (ctype*)(s + f->byte_offset); }
  ctype upb_struct_get_name(s, f)      { return *upb_struct_get_name_ptr(s, f); }
  void upb_struct_set_name(s, f, val)  { *upb_struct_get_name_ptr(s, f) = val; }
  \<close>
\<close>

definition upb_struct_get_T_ptr :: "addr \<Rightarrow> upb_struct_field \<Rightarrow> addr" where
  "upb_struct_get_T_ptr s f = s + byte_offset f"

definition upb_struct_get_T :: "'a ctype \<Rightarrow> heap \<Rightarrow> addr \<Rightarrow> upb_struct_field \<Rightarrow> 'a" where
  "upb_struct_get_T T h s f = deref T h (upb_struct_get_T_ptr s f)"

definition upb_struct_set_T :: "'a ctype \<Rightarrow> heap \<Rightarrow> addr \<Rightarrow> upb_struct_field \<Rightarrow> 'a \<Rightarrow> heap" where
  "upb_struct_set_T T h s f val = assign T h (upb_struct_get_T_ptr s f) val"

text \<open>
  \<^verbatim>\<open>struct upb_array\<close> and \<^verbatim>\<open>UPB_DEFINE_ARRAY_ACCESSORS(ctype, name, INLINE)\<close>:
  \<^verbatim>\<open>
  ctype *upb_array_get_name_ptr(a, n) { return ((ctype*)a->data) + n; }
  ctype upb_array_get_name(a, n)      { return *upb_array_get_name_ptr(a, n); }
  void upb_array_set_name(a, n, val)  { *upb_array_get_name_ptr(a, n) = val; }
  \<close>
  Adding \<open>n\<close> to a \<^verbatim>\<open>ctype*\<close> moves the address by \<open>n\<close> times \<^verbatim>\<open>sizeof(ctype)\<close>.
\<close>

record upb_array =
  len :: nat
  data :: addr

definition upb_array_get_T_ptr :: "'a ctype \<Rightarrow> upb_array \<Rightarrow> int \<Rightarrow> addr" where
  "upb_array_get_T_ptr T a n = data a + n * int (sizeof T)"

definition upb_array_get_T :: "'a ctype \<Rightarrow> heap \<Rightarrow> upb_array \<Rightarrow> int \<Rightarrow> 'a" where
  "upb_array_get_T T h a n = deref T h (upb_array_get_T_ptr T a n)"

definition upb_array_set_T :: "'a ctype \<Rightarrow> heap \<Rightarrow> upb_array \<Rightarrow> int \<Rightarrow> 'a \<Rightarrow> heap" where
  "upb_array_set_T T h a n val = assign T h (upb_array_get_T_ptr T a n) val"

text \<open>The instances of \<^verbatim>\<open>UPB_DEFINE_ALL_ACCESSORS\<close> for the primitive types.\<close>

abbreviation "upb_struct_get_double e \<equiv> upb_struct_get_T (c_double e)"
abbreviation "upb_struct_set_double e \<equiv> upb_struct_set_T (c_double e)"
abbreviation "upb_struct_get_float e \<equiv> upb_struct_get_T (c_float e)"
abbreviation "upb_struct_set_float e \<equiv> upb_struct_set_T (c_float e)"
abbreviation "upb_struct_get_int32 e \<equiv> upb_struct_get_T (c_int32 e)"
abbreviation "upb_struct_set_int32 e \<equiv> upb_struct_set_T (c_int32 e)"
abbreviation "upb_struct_get_int64 e \<equiv> upb_struct_get_T (c_int64 e)"
abbreviation "upb_struct_set_int64 e \<equiv> upb_struct_set_T (c_int64 e)"
abbreviation "upb_struct_get_uint32 e \<equiv> upb_struct_get_T (c_uint32 e)"
abbreviation "upb_struct_set_uint32 e \<equiv> upb_struct_set_T (c_uint32 e)"
abbreviation "upb_struct_get_uint64 e \<equiv> upb_struct_get_T (c_uint64 e)"
abbreviation "upb_struct_set_uint64 e \<equiv> upb_struct_set_T (c_uint64 e)"
abbreviation "upb_struct_get_bool \<equiv> upb_struct_get_T c_bool"
abbreviation "upb_struct_set_bool \<equiv> upb_struct_set_T c_bool"
abbreviation "upb_array_get_int32_ptr e \<equiv> upb_array_get_T_ptr (c_int32 e)"
abbreviation "upb_array_get_int32 e \<equiv> upb_array_get_T (c_int32 e)"
abbreviation "upb_array_set_int32 e \<equiv> upb_array_set_T (c_int32 e)"

section \<open>Lookup of a field\<close>

text \<open>
  Modelled from the spec: the header only declares \<^verbatim>\<open>upb_struct_find_field_by_name\<close> and
  \<^verbatim>\<open>upb_struct_find_field_by_number\<close>; their bodies are not in the sources, and neither
  are the names and numbers of the fields (\<^verbatim>\<open>struct upb_struct_field\<close> holds none). The
  specification (4.1) and the header's comment: a linear lookup that returns the
  descriptor of the field, and none (\<^verbatim>\<open>NULL\<close>) if no such field is found; it raises no
  error and does not mutate the definition. The names (the numbers) of the fields are a
  list parallel to \<^verbatim>\<open>fields[]\<close>, a parameter of the model. The result is the descriptor
  found, if any, with the definition as it is after the call.
\<close>

fun linear_lookup :: "'k list \<Rightarrow> upb_struct_field list \<Rightarrow> 'k \<Rightarrow> upb_struct_field option" where
  "linear_lookup (k' # ks) (f # fs) k = (if k' = k then Some f else linear_lookup ks fs k)"
| "linear_lookup _ _ k = None"

definition upb_struct_find_field_by_name ::
    "string list \<Rightarrow> upb_struct_definition \<Rightarrow> string
       \<Rightarrow> upb_struct_field option \<times> upb_struct_definition" where
  "upb_struct_find_field_by_name names d name = (linear_lookup names (fields_arr d) name, d)"

definition upb_struct_find_field_by_number ::
    "uint32_t list \<Rightarrow> upb_struct_definition \<Rightarrow> uint32_t
       \<Rightarrow> upb_struct_field option \<times> upb_struct_definition" where
  "upb_struct_find_field_by_number numbers d number =
     (linear_lookup numbers (fields_arr d) number, d)"

section \<open>Notions of the specification\<close>

text \<open>
  The scan of the required fields as the specification describes it (4.4), without the
  loop. \<open>whole_bytes n\<close> is the number of whole presence bytes walked, one for each time
  8 bits are taken off while more than 8 remain; each of them equals \<^verbatim>\<open>0xFF\<close>, and the
  byte after them equals the mask of the remaining low-order one bits.
\<close>

definition whole_bytes :: "int \<Rightarrow> nat" where
  "whole_bytes n = (if n > 8 then nat ((n - 1) div 8) else 0)"

definition spec_required_scan :: "heap \<Rightarrow> addr \<Rightarrow> int \<Rightarrow> bool" where
  "spec_required_scan h s n \<longleftrightarrow>
     (\<forall>k \<in> {0..<whole_bytes n}. h (s + int k) = 0xFF) \<and>
     uint (h (s + int (whole_bytes n))) = 2 ^ nat (n - 8 * int (whole_bytes n)) - 1"

text \<open>A single-bit mask, as the data model asks of \<^verbatim>\<open>isset_byte_mask\<close>.\<close>

definition single_bit :: "uint8_t \<Rightarrow> bool" where
  "single_bit m \<longleftrightarrow> m \<in> set [1, 2, 4, 8, 16, 32, 64, 128]"

text \<open>
  A sample layout of \<open>n\<close> fields (at most 64) in slots of eight bytes after eight bytes
  of flags: the set bit of field \<open>j\<close> is bit \<open>j mod 8\<close> of presence byte \<open>j div 8\<close>, and
  the first \<open>r\<close> fields are the required ones ("required fields have the lowest set
  bytemasks").
\<close>

definition sample_field :: "nat \<Rightarrow> upb_struct_field" where
  "sample_field j =
     \<lparr>byte_offset = 8 + 8 * int j, isset_byte_offset = int (j div 8),
      isset_byte_mask = push_bit (j mod 8) 1\<rparr>"

definition sample_definition :: "nat \<Rightarrow> int \<Rightarrow> upb_struct_definition" where
  "sample_definition n r =
     \<lparr>struct_size = 8 + 8 * n, num_fields = int n, set_flags_bytes = int ((n + 7) div 8),
      num_required_fields = r, fields_arr = map sample_field [0..<n]\<rparr>"

section \<open>Properties of the required-field check\<close>

lemma whole_bytes_step: "8 < n \<Longrightarrow> whole_bytes n = Suc (whole_bytes (n - 8))"
  unfolding whole_bytes_def by (auto simp: nat_eq_iff)

lemma whole_bytes_small: "n \<le> 8 \<Longrightarrow> whole_bytes n = 0"
  by (simp add: whole_bytes_def)

text \<open>
  \<open>whole_bytes\<close> is what the loop counts: after it between 0 and 8 bits remain, and at
  least 1 when a whole byte was walked (more than 8 remained before the last of them).
\<close>

lemma whole_bytes_remaining:
  assumes "0 \<le> n"
  shows "0 \<le> n - 8 * int (whole_bytes n)" and "n - 8 * int (whole_bytes n) \<le> 8"
    and "0 < whole_bytes n \<Longrightarrow> 0 < n - 8 * int (whole_bytes n)"
  using assms unfolding whole_bytes_def by (auto split: if_splits)

lemma byte_all_ones: "uint (b :: uint8_t) = 255 \<longleftrightarrow> b = 0xFF"
  by (simp add: word_uint_eq_iff)

lemma ball_upt_Suc:
  "(\<forall>k \<in> {0..<Suc m}. P k) \<longleftrightarrow> P 0 \<and> (\<forall>k \<in> {0..<m}. P (Suc k))"
  by (auto simp: less_Suc_eq_0_disj)

lemma loop_last:
  "0 \<le> n \<Longrightarrow> n \<le> 8 \<Longrightarrow> all_required_loop h s n i = Some (uint (h (s + i)) = 2 ^ nat n - 1)"
  by (simp add: push_bit_eq_mult)

lemma loop_negative: "n < 0 \<Longrightarrow> all_required_loop h s n i = None"
  by simp

lemma loop_scan:
  "0 \<le> n \<Longrightarrow> all_required_loop h s n i = Some (spec_required_scan h (s + i) n)"
proof (induction h s n i rule: all_required_loop.induct)
  case (1 h s n i)
  show ?case
  proof (cases "8 < n")
    case False
    with "1.prems" show ?thesis
      by (simp add: spec_required_scan_def whole_bytes_small push_bit_eq_mult)
  next
    case more: True
    show ?thesis
    proof (cases "uint (h (s + i)) = 0xFF")
      case False
      then have "\<not> spec_required_scan h (s + i) n"
        using more
        by (simp add: spec_required_scan_def whole_bytes_step byte_all_ones ball_upt_Suc)
      with more False show ?thesis by simp
    next
      case ones: True
      have ih: "all_required_loop h s (n - 8) (i + 1)
                  = Some (spec_required_scan h (s + (i + 1)) (n - 8))"
        using "1.IH" more ones by simp
      have "spec_required_scan h (s + i) n \<longleftrightarrow> spec_required_scan h (s + (i + 1)) (n - 8)"
        using more ones
        by (simp add: spec_required_scan_def whole_bytes_step byte_all_ones ball_upt_Suc
            algebra_simps)
      with more ones ih show ?thesis by simp
    qed
  qed
qed

lemma uint_mask_byte:
  assumes "n \<le> 8"
  shows "uint (b :: uint8_t) = 2 ^ n - 1 \<longleftrightarrow> b = mask n"
proof -
  have "uint (mask n :: uint8_t) = 2 ^ n - 1"
    using assms by (simp only: uint_mask_eq) (simp add: min_def mask_eq_exp_minus_1)
  then show ?thesis
    by (metis word_uint_eq_iff)
qed

lemma mask_and_high_bit: "n \<le> j \<Longrightarrow> (mask n :: uint8_t) AND push_bit j 1 = 0"
  by (rule bit_word_eqI) (auto simp: bit_simps)

lemma high_bit_not_mask:
  assumes "n \<le> 8" "n \<le> j" "(b :: uint8_t) AND push_bit j 1 \<noteq> 0"
  shows "uint b \<noteq> 2 ^ n - 1"
proof
  assume "uint b = 2 ^ n - 1"
  with assms(1) have "b = mask n" by (simp add: uint_mask_byte)
  then have "b AND push_bit j 1 = 0"
    using assms(2) by (simp only: mask_and_high_bit)
  with assms(3) show False by simp
qed

lemma mask_and_low_bit: "j < n \<Longrightarrow> j < 8 \<Longrightarrow> (mask n :: uint8_t) AND push_bit j 1 = push_bit j 1"
  by (rule bit_word_eqI) (auto simp: bit_simps)

lemma push_bit_1_nonzero:
  assumes "j < 8"
  shows "(push_bit j 1 :: uint8_t) \<noteq> 0"
proof -
  have set: "bit (push_bit j 1 :: uint8_t) j"
    using assms by (simp add: bit_simps)
  show ?thesis
  proof
    assume "(push_bit j 1 :: uint8_t) = 0"
    with set have "bit (0 :: uint8_t) j" by (simp only:)
    then show False by simp
  qed
qed

text \<open>
  The check is sound: when it is true, every field whose set bit is among the low
  \<^verbatim>\<open>num_required_fields\<close> bits of the flags (bit \<open>j\<close> of byte \<open>k\<close> being bit \<open>8k + j\<close>) is
  set. The converse is what fails (see Claim C1 below).
\<close>

lemma check_true_required_bits_set:
  assumes ok: "upb_struct_all_required_fields_set h s d = Some True"
    and f: "isset_byte_offset f = int k" "isset_byte_mask f = push_bit j 1" "j < 8"
    and required: "int (8 * k + j) < num_required_fields d"
  shows "upb_struct_is_set h s f"
proof -
  let ?n = "num_required_fields d"
  let ?q = "whole_bytes ?n"
  have n: "0 \<le> ?n" using required by simp
  with ok have scan: "spec_required_scan h s ?n"
    using loop_scan [of ?n h s 0] by (simp add: upb_struct_all_required_fields_set_def)
  have "k \<le> ?q"
    using whole_bytes_remaining(2) [OF n] required by simp
  then consider "k < ?q" | "k = ?q" by linarith
  then have "h (s + int k) AND push_bit j 1 = push_bit j 1"
  proof cases
    case 1
    with scan have "h (s + int k) = 0xFF" by (simp add: spec_required_scan_def)
    then have "h (s + int k) = mask 8" by (simp add: mask_eq_exp_minus_1)
    then show ?thesis using f(3) by (simp only: mask_and_low_bit)
  next
    case 2
    let ?r = "nat (?n - 8 * int ?q)"
    have r: "?r \<le> 8" "j < ?r"
      using whole_bytes_remaining(2) [OF n] required 2 by simp_all
    from scan 2 have "uint (h (s + int k)) = 2 ^ ?r - 1" by (simp add: spec_required_scan_def)
    with r(1) have "h (s + int k) = mask ?r" by (simp only: uint_mask_byte)
    then show ?thesis using r(2) f(3) by (simp only: mask_and_low_bit)
  qed
  then show ?thesis
    using f push_bit_1_nonzero [of j] by (simp add: upb_struct_is_set_def)
qed

text \<open>
  Claim C3. \<^verbatim>\<open>upb_struct_all_required_fields_set\<close> computes the scan the specification
  describes: for a count of required fields that is not negative, each whole presence
  byte walked while more than 8 bits remain must equal \<^verbatim>\<open>0xFF\<close>, and the final byte must
  equal the mask \<^verbatim>\<open>(1 << remaining) - 1\<close>; the result is false at a mismatch and true
  otherwise. With 10 required fields, byte 0 = \<^verbatim>\<open>0xFF\<close> and byte 1 = \<^verbatim>\<open>0b00000011\<close> give
  true, byte 0 = \<^verbatim>\<open>0xFF\<close> and byte 1 = \<^verbatim>\<open>0b00000001\<close> give false.
\<close>

theorem all_required_fields_set_algorithm:
  "(0 \<le> num_required_fields d \<longrightarrow>
      upb_struct_all_required_fields_set h s d
        = Some (spec_required_scan h s (num_required_fields d)))
   \<and> (num_required_fields d = 10 \<and> h s = 0xFF \<and> h (s + 1) = 0b00000011 \<longrightarrow>
      upb_struct_all_required_fields_set h s d = Some True)
   \<and> (num_required_fields d = 10 \<and> h s = 0xFF \<and> h (s + 1) = 0b00000001 \<longrightarrow>
      upb_struct_all_required_fields_set h s d = Some False)"
proof (intro conjI impI)
  assume "0 \<le> num_required_fields d"
  then show "upb_struct_all_required_fields_set h s d
        = Some (spec_required_scan h s (num_required_fields d))"
    using loop_scan [of "num_required_fields d" h s 0]
    by (simp add: upb_struct_all_required_fields_set_def)
next
  assume "num_required_fields d = 10 \<and> h s = 0xFF \<and> h (s + 1) = 0b00000011"
  then show "upb_struct_all_required_fields_set h s d = Some True"
    by (simp add: upb_struct_all_required_fields_set_def)
next
  assume "num_required_fields d = 10 \<and> h s = 0xFF \<and> h (s + 1) = 0b00000001"
  then show "upb_struct_all_required_fields_set h s d = Some False"
    by (simp add: upb_struct_all_required_fields_set_def)
qed

theorem all_required_fields_set_algorithm_witness:
  "0 \<le> num_required_fields (sample_definition 12 10)
   \<and> upb_struct_all_required_fields_set (\<lambda>_. 0xFF) 4096 (sample_definition 12 10)
       = Some (spec_required_scan (\<lambda>_. 0xFF) 4096 10)
   \<and> upb_struct_all_required_fields_set ((\<lambda>_. 0)(4096 := 0xFF, 4097 := 3)) 4096
       (sample_definition 12 10) = Some True
   \<and> upb_struct_all_required_fields_set ((\<lambda>_. 0)(4096 := 0xFF, 4097 := 1)) 4096
       (sample_definition 12 10) = Some False"
  using all_required_fields_set_algorithm [of "sample_definition 12 10" "\<lambda>_. 0xFF" 4096]
        all_required_fields_set_algorithm
          [of "sample_definition 12 10" "(\<lambda>_. 0)(4096 := 0xFF, 4097 := 3)" 4096]
        all_required_fields_set_algorithm
          [of "sample_definition 12 10" "(\<lambda>_. 0)(4096 := 0xFF, 4097 := 1)" 4096]
  by (simp add: sample_definition_def spec_required_scan_def whole_bytes_def)

text \<open>
  Claim C4. With between 1 and 8 required fields, the check is true exactly when
  presence byte 0 equals \<^verbatim>\<open>(1 << num_required_fields) - 1\<close>. In particular, when a field
  \<open>g\<close> that is not required (its bit \<open>j\<close> is not among the low \<^verbatim>\<open>num_required_fields\<close>
  bits) has its set bit in byte 0 and is set, the check is false, whatever the bits of
  the required fields.
\<close>

theorem small_required_count_exact_byte:
  assumes "1 \<le> num_required_fields d" and "num_required_fields d \<le> 8"
  shows "upb_struct_all_required_fields_set h s d
           = Some (uint (h s) = (2 ^ nat (num_required_fields d) - 1))
       \<and> (isset_byte_offset g = 0 \<and> isset_byte_mask g = push_bit j 1
            \<and> nat (num_required_fields d) \<le> j \<and> upb_struct_is_set h s g \<longrightarrow>
          upb_struct_all_required_fields_set h s d = Some False)"
proof -
  have exact: "upb_struct_all_required_fields_set h s d
           = Some (uint (h s) = (2 ^ nat (num_required_fields d) - 1))"
    using assms loop_last [of "num_required_fields d" h s 0]
    by (simp add: upb_struct_all_required_fields_set_def)
  have "uint (h s) \<noteq> 2 ^ nat (num_required_fields d) - 1"
    if "isset_byte_offset g = 0" "isset_byte_mask g = push_bit j 1"
       "nat (num_required_fields d) \<le> j" "upb_struct_is_set h s g"
    using that assms high_bit_not_mask [of "nat (num_required_fields d)" j "h s"]
    by (simp add: upb_struct_is_set_def)
  with exact show ?thesis by simp
qed

theorem small_required_count_exact_byte_witness:
  "upb_struct_all_required_fields_set ((\<lambda>_. 0)(4096 := 0x07)) 4096 (sample_definition 4 3) = Some True
   \<and> upb_struct_is_set ((\<lambda>_. 0)(4096 := 0x0F)) 4096 (sample_field 3)
   \<and> upb_struct_all_required_fields_set ((\<lambda>_. 0)(4096 := 0x0F)) 4096 (sample_definition 4 3) = Some False"
  using small_required_count_exact_byte
          [of "sample_definition 4 3" "(\<lambda>_. 0)(4096 := 0x07)" 4096 "sample_field 3" 3]
        small_required_count_exact_byte
          [of "sample_definition 4 3" "(\<lambda>_. 0)(4096 := 0x0F)" 4096 "sample_field 3" 3]
  by (simp add: sample_definition_def sample_field_def upb_struct_is_set_def)

text \<open>
  Claim C1, on the sample layout with four fields in presence byte 0, the first three
  required. With byte 0 = \<^verbatim>\<open>0x0F\<close> the three required fields are set and the check is
  false; unsetting the fourth field, which is not required, turns the check to true. So
  the check is not "true iff every required field's bit is 1", and the bit of a field
  that is not required does change its result.
\<close>

theorem required_set_but_check_fails:
  "num_required_fields (sample_definition 4 3) = 3
   \<and> upb_struct_is_set ((\<lambda>_. 0)(4096 := 0x0F)) 4096 (sample_field 0)
   \<and> upb_struct_is_set ((\<lambda>_. 0)(4096 := 0x0F)) 4096 (sample_field 1)
   \<and> upb_struct_is_set ((\<lambda>_. 0)(4096 := 0x0F)) 4096 (sample_field 2)
   \<and> upb_struct_all_required_fields_set ((\<lambda>_. 0)(4096 := 0x0F)) 4096 (sample_definition 4 3)
       = Some False
   \<and> upb_struct_all_required_fields_set
        (upb_struct_unset ((\<lambda>_. 0)(4096 := 0x0F)) 4096 (sample_field 3)) 4096 (sample_definition 4 3)
       = Some True"
  by (simp add: sample_definition_def sample_field_def upb_struct_is_set_def
      upb_struct_unset_def upb_struct_all_required_fields_set_def)

text \<open>
  Claim C2, on the sample layout with four fields and no required field: with the first
  field set (byte 0 = \<^verbatim>\<open>0x01\<close>) the check is false, although no field is required.
\<close>

theorem no_required_field_but_check_fails:
  "num_required_fields (sample_definition 4 0) = 0
   \<and> upb_struct_all_required_fields_set ((\<lambda>_. 0)(4096 := 0x01)) 4096 (sample_definition 4 0)
       = Some False"
  by (simp add: sample_definition_def upb_struct_all_required_fields_set_def)


section \<open>Properties of the set flags\<close>

lemma single_bit_disjoint:
  "single_bit m \<Longrightarrow> single_bit m' \<Longrightarrow> m \<noteq> m' \<Longrightarrow> m AND m' = 0"
  unfolding single_bit_def by auto

lemma and_not_and_disjoint:
  assumes "(m :: uint8_t) AND m' = 0"
  shows "(b AND NOT m) AND m' = b AND m'"
proof -
  have "\<not> (bit m k \<and> bit m' k)" for k
    using assms by (metis bit_and_iff bit_0_eq bot_apply bot_bool_def)
  then show ?thesis
    by (intro bit_word_eqI) (auto simp: bit_simps)
qed

lemma or_and_not: "((b :: uint8_t) OR m) AND NOT m = b AND NOT m"
  by (rule bit_word_eqI) (auto simp: bit_simps)

lemma set_unset_heap:
  "upb_struct_unset (upb_struct_set h s f) s f =
     h(s + isset_byte_offset f := h (s + isset_byte_offset f) AND NOT (isset_byte_mask f))"
  by (simp add: upb_struct_set_def upb_struct_unset_def or_and_not)

text \<open>
  Claim C8. Setting a flag twice leaves the memory as setting it once does, and so does
  unsetting it twice. \<^verbatim>\<open>upb_struct_set\<close> ORs \<^verbatim>\<open>isset_byte_mask\<close> into the byte at
  \<^verbatim>\<open>isset_byte_offset\<close> and \<^verbatim>\<open>upb_struct_unset\<close> ANDs the complement of the mask into
  it; no other byte changes.
\<close>

theorem set_unset_idempotent:
  "upb_struct_set (upb_struct_set h s f) s f = upb_struct_set h s f
   \<and> upb_struct_unset (upb_struct_unset h s f) s f = upb_struct_unset h s f
   \<and> upb_struct_set h s f
       = h(s + isset_byte_offset f := h (s + isset_byte_offset f) OR isset_byte_mask f)
   \<and> upb_struct_unset h s f
       = h(s + isset_byte_offset f := h (s + isset_byte_offset f) AND NOT (isset_byte_mask f))"
  by (simp add: upb_struct_set_def upb_struct_unset_def or.assoc and.assoc)

text \<open>
  Claim C7, as stated, fails when \<open>f\<close> and \<open>g\<close> share a presence byte and \<open>f\<close> was set
  before: fields 0 and 1 of the sample layout have single-bit masks at different
  positions of byte 0; from byte 0 = \<^verbatim>\<open>0x03\<close>, setting and then unsetting field 0 leaves
  \<^verbatim>\<open>0x02\<close>, so the presence byte of field 1 is not as it was before the set.
\<close>

theorem set_unset_changes_shared_byte:
  "single_bit (isset_byte_mask (sample_field 0))
   \<and> single_bit (isset_byte_mask (sample_field 1))
   \<and> (isset_byte_offset (sample_field 1), isset_byte_mask (sample_field 1))
       \<noteq> (isset_byte_offset (sample_field 0), isset_byte_mask (sample_field 0))
   \<and> upb_struct_unset (upb_struct_set ((\<lambda>_. 0)(4096 := 0x03)) 4096 (sample_field 0)) 4096
        (sample_field 0) (4096 + isset_byte_offset (sample_field 1))
       \<noteq> ((\<lambda>_. 0)(4096 := 0x03)) (4096 + isset_byte_offset (sample_field 1))"
  by (simp add: sample_field_def single_bit_def upb_struct_set_def upb_struct_unset_def)

text \<open>
  Claim C7, amended. For fields \<open>f\<close> and \<open>g\<close> with single-bit masks at different
  (byte, bit) positions, setting and then unsetting \<open>f\<close> leaves the set bit of \<open>g\<close> as it
  was; the presence byte of \<open>g\<close> is as it was when \<open>f\<close> lies in another byte, and is the
  old byte with the bit of \<open>f\<close> cleared when they share the byte; in both cases every
  bit of that byte other than the bit of \<open>f\<close> is as before.
\<close>

theorem set_unset_other_field:
  assumes "single_bit (isset_byte_mask f)" and "single_bit (isset_byte_mask g)"
    and "(isset_byte_offset g, isset_byte_mask g) \<noteq> (isset_byte_offset f, isset_byte_mask f)"
  shows "upb_struct_is_set (upb_struct_unset (upb_struct_set h s f) s f) s g
           = upb_struct_is_set h s g
       \<and> upb_struct_unset (upb_struct_set h s f) s f (s + isset_byte_offset g)
           = (if isset_byte_offset g = isset_byte_offset f
              then h (s + isset_byte_offset g) AND NOT (isset_byte_mask f)
              else h (s + isset_byte_offset g))
       \<and> upb_struct_unset (upb_struct_set h s f) s f (s + isset_byte_offset g)
             AND NOT (isset_byte_mask f)
           = h (s + isset_byte_offset g) AND NOT (isset_byte_mask f)"
proof -
  let ?h' = "upb_struct_unset (upb_struct_set h s f) s f"
  have outside: "?h' (s + isset_byte_offset g) AND NOT (isset_byte_mask f)
                   = h (s + isset_byte_offset g) AND NOT (isset_byte_mask f)"
    by (simp add: set_unset_heap and.assoc)
  have byte: "?h' (s + isset_byte_offset g)
                = (if isset_byte_offset g = isset_byte_offset f
                   then h (s + isset_byte_offset g) AND NOT (isset_byte_mask f)
                   else h (s + isset_byte_offset g))"
    by (simp add: set_unset_heap)
  have "upb_struct_is_set ?h' s g = upb_struct_is_set h s g"
  proof (cases "isset_byte_offset g = isset_byte_offset f")
    case True
    with assms have "isset_byte_mask f AND isset_byte_mask g = 0"
      by (intro single_bit_disjoint) auto
    then show ?thesis using True
      by (simp add: set_unset_heap upb_struct_is_set_def and_not_and_disjoint)
  next
    case False
    then show ?thesis by (simp add: set_unset_heap upb_struct_is_set_def)
  qed
  with byte outside show ?thesis by (simp only: simp_thms)
qed

theorem set_unset_other_field_witness:
  "upb_struct_is_set
      (upb_struct_unset (upb_struct_set ((\<lambda>_. 0)(4096 := 0x03)) 4096 (sample_field 0)) 4096
         (sample_field 0)) 4096 (sample_field 1)
     = upb_struct_is_set ((\<lambda>_. 0)(4096 := 0x03)) 4096 (sample_field 1)
   \<and> upb_struct_unset (upb_struct_set ((\<lambda>_. 0)(4096 := 0x03)) 4096 (sample_field 0)) 4096
        (sample_field 0) (4096 + isset_byte_offset (sample_field 1)) = 0x02"
  using set_unset_other_field [of "sample_field 0" "sample_field 1" "(\<lambda>_. 0)(4096 := 0x03)" 4096]
  by (simp add: sample_field_def single_bit_def)

text \<open>
  Claim C6. When the \<^verbatim>\<open>isset_byte_offset\<close> of every field of \<open>d\<close> lies in
  \<open>[0, set_flags_bytes)\<close>, no field of \<open>d\<close> is set after \<^verbatim>\<open>upb_struct_clear\<close>.
\<close>

theorem clear_unsets_every_field:
  assumes "\<forall>f \<in> set (fields_arr d).
             0 \<le> isset_byte_offset f \<and> isset_byte_offset f < set_flags_bytes d"
  shows "\<forall>f \<in> set (fields_arr d). \<not> upb_struct_is_set (upb_struct_clear h s d) s f"
  using assms
  by (auto simp: upb_struct_is_set_def upb_struct_clear_def memset_def size_t_of_int_def)

theorem clear_unsets_every_field_witness:
  "upb_struct_is_set (\<lambda>_. 0xFF) 4096 (sample_field 0)
   \<and> upb_struct_is_set (\<lambda>_. 0xFF) 4096 (sample_field 11)
   \<and> \<not> upb_struct_is_set (upb_struct_clear (\<lambda>_. 0xFF) 4096 (sample_definition 12 10)) 4096
         (sample_field 0)
   \<and> \<not> upb_struct_is_set (upb_struct_clear (\<lambda>_. 0xFF) 4096 (sample_definition 12 10)) 4096
         (sample_field 11)"
proof -
  have layout: "\<forall>f \<in> set (fields_arr (sample_definition 12 10)).
       0 \<le> isset_byte_offset f \<and> isset_byte_offset f < set_flags_bytes (sample_definition 12 10)"
    by (auto simp: sample_definition_def sample_field_def)
  have fields: "sample_field 0 \<in> set (fields_arr (sample_definition 12 10))"
    "sample_field 11 \<in> set (fields_arr (sample_definition 12 10))"
    by (simp_all add: sample_definition_def)
  have "upb_struct_is_set (\<lambda>_. 0xFF) 4096 (sample_field 0)"
    "upb_struct_is_set (\<lambda>_. 0xFF) 4096 (sample_field 11)"
    by (simp_all add: upb_struct_is_set_def sample_field_def)
  with fields clear_unsets_every_field [OF layout, of "\<lambda>_. 0xFF" 4096] show ?thesis
    by blast
qed

text \<open>
  Claim C10 (on the lookups modelled from the specification). A lookup by a name that
  no field has, or by a number that no field has, returns none, not an error, and the
  definition is the same after the call.
\<close>

lemma linear_lookup_absent: "k \<notin> set ks \<Longrightarrow> linear_lookup ks fs k = None"
  by (induction ks fs k rule: linear_lookup.induct) auto

theorem find_field_absent:
  "(name \<notin> set names \<longrightarrow> upb_struct_find_field_by_name names d name = (None, d))
   \<and> (number \<notin> set numbers \<longrightarrow> upb_struct_find_field_by_number numbers d number = (None, d))"
  by (simp add: upb_struct_find_field_by_name_def upb_struct_find_field_by_number_def
      linear_lookup_absent)

theorem find_field_absent_witness:
  "''c'' \<notin> set [''a'', ''b'']
   \<and> upb_struct_find_field_by_name [''a'', ''b''] (sample_definition 2 1) ''c''
       = (None, sample_definition 2 1)
   \<and> (3 :: uint32_t) \<notin> set [1, 2]
   \<and> upb_struct_find_field_by_number [1, 2] (sample_definition 2 1) 3
       = (None, sample_definition 2 1)
   \<and> upb_struct_find_field_by_number [1, 2] (sample_definition 2 1) 2
       = (Some (sample_field 1), sample_definition 2 1)"
proof -
  have "upb_struct_find_field_by_number [1, 2] (sample_definition 2 1) 2
       = (Some (sample_field 1), sample_definition 2 1)"
    by (simp add: upb_struct_find_field_by_number_def sample_definition_def upt_rec)
  then show ?thesis
    using find_field_absent [of "''c''" "[''a'', ''b'']" "sample_definition 2 1" 3 "[1, 2]"]
    by simp
qed


section \<open>Properties of the typed accessors\<close>

lemma store_bytes_other:
  "q < p \<or> p + int (length bs) \<le> q \<Longrightarrow> store_bytes h p bs q = h q"
  by (induction bs arbitrary: h p) auto

lemma load_bytes_cong:
  "(\<And>a. q \<le> a \<Longrightarrow> a < q + int n \<Longrightarrow> h a = h' a) \<Longrightarrow> load_bytes h q n = load_bytes h' q n"
  by (induction n arbitrary: q) auto

lemma load_store_same: "load_bytes (store_bytes h p bs) p (length bs) = bs"
  by (induction bs arbitrary: h p) (auto simp: store_bytes_other)

lemma load_store_disjoint:
  "q + int n \<le> p \<or> p + int (length bs) \<le> q \<Longrightarrow>
   load_bytes (store_bytes h p bs) q n = load_bytes h q n"
  by (rule load_bytes_cong) (auto simp: store_bytes_other)

lemma length_le_bytes: "length (le_bytes n w) = n"
  by (induction n arbitrary: w) auto

lemma le_word_le_bytes: "le_word (le_bytes n w) = take_bit (8 * n) w"
proof (induction n arbitrary: w)
  case 0
  show ?case by simp
next
  case (Suc n)
  have "ucast (ucast w :: uint8_t) OR push_bit 8 (take_bit (8 * n) (drop_bit 8 w))
          = take_bit (8 * Suc n) w"
    by (rule bit_word_eqI) (auto simp: bit_simps)
  with Suc show ?case by simp
qed

lemma word_ctype_roundtrip:
  "LENGTH('a::len) \<le> 8 * n \<Longrightarrow>
   of_bytes (word_ctype e n) (to_bytes (word_ctype e n) (w :: 'a word)) = w"
  by (cases e) (simp_all add: word_ctype_def le_word_le_bytes take_bit_word_eq_self)

lemma word_ctype_length: "length (to_bytes (word_ctype e n) w) = sizeof (word_ctype e n)"
  by (cases e) (simp_all add: word_ctype_def length_le_bytes)

lemma sizeof_word_ctype: "sizeof (word_ctype e n) = n"
  by (simp add: word_ctype_def)

lemma deref_assign:
  assumes "length (to_bytes T v) = sizeof T" and "of_bytes T (to_bytes T v) = v"
  shows "deref T (assign T h p v) p = v"
proof -
  have "load_bytes (store_bytes h p (to_bytes T v)) p (sizeof T) = to_bytes T v"
    using load_store_same [of h p "to_bytes T v"] assms(1) by simp
  with assms(2) show ?thesis by (simp add: assign_def deref_def)
qed

lemma deref_assign_disjoint:
  "length (to_bytes T v) = sizeof T \<Longrightarrow>
   q + int (sizeof T) \<le> p \<or> p + int (sizeof T) \<le> q \<Longrightarrow>
   deref T (assign T h p v) q = deref T h q"
  by (simp add: assign_def deref_def load_store_disjoint)

lemma deref_assign_word:
  "LENGTH('a::len) \<le> 8 * n \<Longrightarrow>
   deref (word_ctype e n) (assign (word_ctype e n) h p (w :: 'a word)) p = w"
  by (simp add: deref_assign word_ctype_roundtrip word_ctype_length)

lemma deref_assign_bool: "deref c_bool (assign c_bool h p b) p = b"
  by (rule deref_assign) (simp_all add: c_bool_def)

text \<open>
  Claim C5. For each of the seven primitive types, for every memory, buffer address,
  field descriptor and value, and in either byte order: \<^verbatim>\<open>upb_struct_set_T\<close> followed by
  \<^verbatim>\<open>upb_struct_get_T\<close> on the same field returns the value written, through the slot at
  \<open>s + byte_offset f\<close>.
\<close>

theorem struct_set_get_roundtrip:
  "upb_struct_get_double e (upb_struct_set_double e h s f v_double) s f = v_double
   \<and> upb_struct_get_float e (upb_struct_set_float e h s f v_float) s f = v_float
   \<and> upb_struct_get_int32 e (upb_struct_set_int32 e h s f v_int32) s f = v_int32
   \<and> upb_struct_get_int64 e (upb_struct_set_int64 e h s f v_int64) s f = v_int64
   \<and> upb_struct_get_uint32 e (upb_struct_set_uint32 e h s f v_uint32) s f = v_uint32
   \<and> upb_struct_get_uint64 e (upb_struct_set_uint64 e h s f v_uint64) s f = v_uint64
   \<and> upb_struct_get_bool (upb_struct_set_bool h s f v_bool) s f = v_bool
   \<and> upb_struct_get_T_ptr s f = s + byte_offset f"
  by (simp add: upb_struct_get_T_def upb_struct_set_T_def upb_struct_get_T_ptr_def
      c_double_def c_float_def c_int32_def c_int64_def c_uint32_def c_uint64_def
      deref_assign_word deref_assign_bool)

lemma array_get_set_same:
  "upb_array_get_int32 e (upb_array_set_int32 e h a n v) a n = v"
  by (simp add: upb_array_get_T_def upb_array_set_T_def c_int32_def deref_assign_word)

lemma array_get_set_other:
  assumes "m \<noteq> n"
  shows "upb_array_get_int32 e (upb_array_set_int32 e h a n v) a m = upb_array_get_int32 e h a m"
proof -
  let ?T = "word_ctype e 4 :: int32_t ctype"
  have "data a + m * 4 + int (sizeof ?T) \<le> data a + n * 4
          \<or> data a + n * 4 + int (sizeof ?T) \<le> data a + m * 4"
    using assms by (simp only: sizeof_word_ctype) arith
  then have "deref ?T (assign ?T h (data a + n * 4) v) (data a + m * 4)
               = deref ?T h (data a + m * 4)"
    by (rule deref_assign_disjoint [OF word_ctype_length])
  then show ?thesis
    by (simp add: upb_array_get_T_def upb_array_set_T_def upb_array_get_T_ptr_def c_int32_def
        sizeof_word_ctype)
qed

text \<open>
  Claim C9. For an array of 32-bit signed integers (of length 3, or any other: the
  accessors do not read \<^verbatim>\<open>len\<close>), after \<^verbatim>\<open>upb_array_set_int32(a, 1, -5)\<close> the element at
  index 1 is -5 and the elements at indices 0 and 2 are as before; after a write at any
  index \<open>n\<close> the element at \<open>n\<close> is the value written and every other index \<open>m\<close> is
  unaffected. Element \<open>n\<close> is at \<open>data + n * sizeof(T)\<close>, 4 bytes for \<^verbatim>\<open>int32_t\<close>.
\<close>

theorem array_int32_set_get:
  "upb_array_get_int32 e (upb_array_set_int32 e h a 1 (- 5)) a 1 = - 5
   \<and> sint (upb_array_get_int32 e (upb_array_set_int32 e h a 1 (- 5)) a 1) = - 5
   \<and> upb_array_get_int32 e (upb_array_set_int32 e h a 1 (- 5)) a 0 = upb_array_get_int32 e h a 0
   \<and> upb_array_get_int32 e (upb_array_set_int32 e h a 1 (- 5)) a 2 = upb_array_get_int32 e h a 2
   \<and> upb_array_get_int32 e (upb_array_set_int32 e h a n v) a n = v
   \<and> (m \<noteq> n \<longrightarrow>
        upb_array_get_int32 e (upb_array_set_int32 e h a n v) a m = upb_array_get_int32 e h a m)
   \<and> upb_array_get_int32_ptr e a n = data a + n * 4
   \<and> upb_array_get_T_ptr T a n = data a + n * int (sizeof T)"
proof -
  have "upb_array_get_int32_ptr e a n = data a + n * 4"
    by (simp add: upb_array_get_T_ptr_def c_int32_def sizeof_word_ctype)
  then show ?thesis
    by (simp add: array_get_set_same array_get_set_other upb_array_get_T_ptr_def)
qed

theorem array_int32_set_get_witness:
  "(0 :: int) \<noteq> 1
   \<and> upb_array_get_int32 LittleEndian
        (upb_array_set_int32 LittleEndian ((\<lambda>_. 0)(8192 := 7, 8200 := 9)) \<lparr>len = 3, data = 8192\<rparr> 1 (- 5))
        \<lparr>len = 3, data = 8192\<rparr> 0
       = upb_array_get_int32 LittleEndian ((\<lambda>_. 0)(8192 := 7, 8200 := 9)) \<lparr>len = 3, data = 8192\<rparr> 0
   \<and> upb_array_get_int32 LittleEndian ((\<lambda>_. 0)(8192 := 7, 8200 := 9)) \<lparr>len = 3, data = 8192\<rparr> 0 = 7"
proof -
  have "upb_array_get_int32 LittleEndian ((\<lambda>_. 0)(8192 := 7, 8200 := 9)) \<lparr>len = 3, data = 8192\<rparr> 0 = 7"
    by code_simp
  then show ?thesis
    using array_int32_set_get [of LittleEndian "(\<lambda>_. 0)(8192 := 7, 8200 := 9)"
                                 "\<lparr>len = 3, data = 8192\<rparr>" 1 "- 5" 0 c_bool]
    by simp
qed


end
